theory Spec2Isabelle
  imports Main
begin

section \<open>The blocking detector of the dispatcher\<close>

text \<open>
  Embedding of \<^verbatim>\<open>powerapi/dispatcher/blocking_detector.py\<close>.
  Python integers are unbounded, so every identifier is an \<open>int\<close>.
  The attribute \<^verbatim>\<open>last_poison_message_id\<close> starts as \<^verbatim>\<open>None\<close>, so it is an
  \<open>int option\<close>; adding one to \<^verbatim>\<open>None\<close> raises \<^verbatim>\<open>TypeError\<close> in Python, which the
  model returns as a value. Of the message passed to \<^verbatim>\<open>notify_poison_received\<close> only the
  attribute \<^verbatim>\<open>dispatcher_report_id\<close> is read, so the model takes that integer.
\<close>

subsection \<open>Data\<close>

datatype State = INIT | BLOCKED_INTER_1 | BLOCKED_INTER_2 | BLOCKED | FINAL

datatype error = TypeError

record BlockingDetector =
  state :: State
  last_poison_message_id :: "int option"
  max_id_value :: int
  last_message_id :: int

text \<open>The constructor \<^verbatim>\<open>__init__\<close>.\<close>

definition init :: BlockingDetector where
  "init = \<lparr>state = INIT, last_poison_message_id = None,
           max_id_value = 10000, last_message_id = 0\<rparr>"

subsection \<open>Operations\<close>

text \<open>
  Lines 53 to 63 of \<^verbatim>\<open>notify_poison_received\<close>: the branch on the state. The comparison
  of line 55 is reached only when the state is not \<open>INIT\<close>; it evaluates
  \<^verbatim>\<open>self.last_poison_message_id + 1\<close> and so raises when that attribute is \<^verbatim>\<open>None\<close>.
\<close>

definition notify_state :: "BlockingDetector \<Rightarrow> int \<Rightarrow> error + BlockingDetector" where
  "notify_state d rid =
     (if state d = INIT then Inr (d\<lparr>state := BLOCKED_INTER_1\<rparr>)
      else (case last_poison_message_id d of
              None \<Rightarrow> Inl TypeError
            | Some l \<Rightarrow>
                if rid = l + 1 then
                  (if state d = BLOCKED_INTER_1 then Inr (d\<lparr>state := BLOCKED_INTER_2\<rparr>)
                   else if state d = BLOCKED_INTER_2 then Inr (d\<lparr>state := BLOCKED\<rparr>)
                   else if state d = BLOCKED then Inr (d\<lparr>state := FINAL\<rparr>)
                   else Inr d)
                else if state d \<noteq> BLOCKED \<and> state d \<noteq> FINAL
                  then Inr (d\<lparr>state := BLOCKED_INTER_1\<rparr>)
                else Inr d))"

text \<open>Lines 66 to 69 of \<^verbatim>\<open>notify_poison_received\<close>: the identifier is recorded.\<close>

definition notify_last :: "BlockingDetector \<Rightarrow> int \<Rightarrow> BlockingDetector" where
  "notify_last d rid =
     (if rid = max_id_value d then d\<lparr>last_poison_message_id := Some (- 1)\<rparr>
      else d\<lparr>last_poison_message_id := Some rid\<rparr>)"

text \<open>The whole method: an exception of the first part leaves the method at once.\<close>

definition notify_poison_received :: "BlockingDetector \<Rightarrow> int \<Rightarrow> error + BlockingDetector" where
  "notify_poison_received d rid =
     (case notify_state d rid of
        Inl e \<Rightarrow> Inl e
      | Inr d1 \<Rightarrow> Inr (notify_last d1 rid))"

text \<open>The two other methods return a value; the detector after the call is returned with it.\<close>

definition is_blocked :: "BlockingDetector \<Rightarrow> bool \<times> BlockingDetector" where
  "is_blocked d = (state d = BLOCKED, d)"

definition get_message_id :: "BlockingDetector \<Rightarrow> int \<times> BlockingDetector" where
  "get_message_id d =
     (let message_id = last_message_id d in
      (message_id,
       if last_message_id d = max_id_value d then d\<lparr>last_message_id := 0\<rparr>
       else d\<lparr>last_message_id := last_message_id d + 1\<rparr>))"

subsection \<open>Sequences of calls\<close>

text \<open>
  A caller of the detector makes a sequence of method calls. A call that raises ends the
  sequence with the error.
\<close>

datatype call = Notify int | IsBlocked | GetMessageId

fun step :: "BlockingDetector \<Rightarrow> call \<Rightarrow> error + BlockingDetector" where
  "step d (Notify rid) = notify_poison_received d rid"
| "step d IsBlocked = Inr (snd (is_blocked d))"
| "step d GetMessageId = Inr (snd (get_message_id d))"

fun run :: "BlockingDetector \<Rightarrow> call list \<Rightarrow> error + BlockingDetector" where
  "run d [] = Inr d"
| "run d (c # cs) = (case step d c of Inl e \<Rightarrow> Inl e | Inr d1 \<Rightarrow> run d1 cs)"

text \<open>The detectors a program can hold: those some sequence of calls makes from a new one.\<close>

definition reachable :: "BlockingDetector \<Rightarrow> bool" where
  "reachable d = (\<exists>cs. run init cs = Inr d)"

text \<open>The identifiers returned by \<open>n\<close> calls of \<^verbatim>\<open>get_message_id\<close> in a row.\<close>

fun get_message_ids :: "nat \<Rightarrow> BlockingDetector \<Rightarrow> int list \<times> BlockingDetector" where
  "get_message_ids 0 d = ([], d)"
| "get_message_ids (Suc n) d =
     (let (i, d1) = get_message_id d; (is, d2) = get_message_ids n d1 in (i # is, d2))"

text \<open>
  The calls whose identifier, if they carry one, is in the identifier space, and the calls
  that are notifications.
\<close>

fun valid_call :: "call \<Rightarrow> bool" where
  "valid_call (Notify rid) = (0 \<le> rid \<and> rid \<le> max_id_value init)"
| "valid_call IsBlocked = True"
| "valid_call GetMessageId = True"

fun is_notify :: "call \<Rightarrow> bool" where
  "is_notify (Notify rid) = True"
| "is_notify IsBlocked = False"
| "is_notify GetMessageId = False"

text \<open>
  The invariant of the detectors in use: the last identifier is missing exactly in the
  state \<open>INIT\<close>, the bound is the one the constructor sets, and the counter is within it.
\<close>

definition detector_inv :: "BlockingDetector \<Rightarrow> bool" where
  "detector_inv d = ((last_poison_message_id d = None) = (state d = INIT)
            \<and> max_id_value d = 10000
            \<and> 0 \<le> last_message_id d \<and> last_message_id d \<le> max_id_value d)"

text \<open>The last identifier of a detector, if there is one, is \<open>- 1\<close> or from 0 to the bound minus 1.\<close>

definition last_in_range :: "BlockingDetector \<Rightarrow> bool" where
  "last_in_range d =
     (case last_poison_message_id d of
        None \<Rightarrow> True
      | Some l \<Rightarrow> l = - 1 \<or> (0 \<le> l \<and> l \<le> max_id_value d - 1))"

section \<open>Basic facts\<close>

lemma inv_init: "detector_inv init"
  by (simp add: detector_inv_def init_def)

lemma notify_raises_iff:
  "(notify_poison_received d rid = Inl TypeError)
     = (state d \<noteq> INIT \<and> last_poison_message_id d = None)"
  by (simp add: notify_poison_received_def notify_state_def split: option.splits)

lemma notify_inv:
  assumes "detector_inv d"
  shows "\<exists>d1. notify_poison_received d rid = Inr d1 \<and> detector_inv d1"
proof (cases "state d = INIT")
  case True
  then show ?thesis using assms
    by (simp add: notify_poison_received_def notify_state_def notify_last_def detector_inv_def)
next
  case False
  with assms obtain l where "last_poison_message_id d = Some l"
    by (auto simp: detector_inv_def)
  with False assms show ?thesis
    by (simp add: notify_poison_received_def notify_state_def notify_last_def detector_inv_def)
qed

lemma get_message_id_inv: "detector_inv d \<Longrightarrow> detector_inv (snd (get_message_id d))"
  by (simp add: get_message_id_def detector_inv_def Let_def)

lemma is_blocked_inv: "detector_inv d \<Longrightarrow> detector_inv (snd (is_blocked d))"
  by (simp add: is_blocked_def)

lemma step_inv:
  assumes "detector_inv d"
  shows "\<exists>d1. step d c = Inr d1 \<and> detector_inv d1"
proof (cases c)
  case (Notify rid)
  then show ?thesis using notify_inv [OF assms] by simp
next
  case IsBlocked
  then show ?thesis using is_blocked_inv [OF assms] by simp
next
  case GetMessageId
  then show ?thesis using get_message_id_inv [OF assms] by simp
qed

lemma run_inv: "detector_inv d \<Longrightarrow> \<exists>d1. run d cs = Inr d1 \<and> detector_inv d1"
proof (induction cs arbitrary: d)
  case Nil
  then show ?case by simp
next
  case (Cons c cs)
  from step_inv [OF Cons.prems] obtain d1 where s: "step d c = Inr d1" and i: "detector_inv d1"
    by blast
  from Cons.IH [OF i] s show ?case by simp
qed

lemma reachable_inv: "reachable d \<Longrightarrow> detector_inv d"
proof -
  assume "reachable d"
  then obtain cs where r: "run init cs = Inr d" unfolding reachable_def by blast
  from run_inv [OF inv_init, of cs] r show ?thesis by simp
qed

lemma reachable_init: "reachable init"
proof -
  have "run init [] = Inr init" by simp
  then show ?thesis unfolding reachable_def by blast
qed

lemma run_append:
  "run d (cs @ cs') = (case run d cs of Inl e \<Rightarrow> Inl e | Inr d1 \<Rightarrow> run d1 cs')"
  by (induction cs arbitrary: d) (auto split: sum.splits)

lemma reachable_step: "reachable d \<Longrightarrow> step d c = Inr d1 \<Longrightarrow> reachable d1"
proof -
  assume r: "reachable d" and s: "step d c = Inr d1"
  from r obtain cs where "run init cs = Inr d" unfolding reachable_def by blast
  with s have "run init (cs @ [c]) = Inr d1" by (simp add: run_append)
  then show ?thesis unfolding reachable_def by blast
qed

lemma reachableI: "run init cs = Inr d \<Longrightarrow> reachable d"
  unfolding reachable_def by blast

lemma notify_defs_Some:
  "last_poison_message_id d = Some l \<Longrightarrow> state d \<noteq> INIT \<Longrightarrow>
   notify_poison_received d rid =
     Inr (notify_last
       (if rid = l + 1 then
          (if state d = BLOCKED_INTER_1 then d\<lparr>state := BLOCKED_INTER_2\<rparr>
           else if state d = BLOCKED_INTER_2 then d\<lparr>state := BLOCKED\<rparr>
           else if state d = BLOCKED then d\<lparr>state := FINAL\<rparr>
           else d)
        else if state d \<noteq> BLOCKED \<and> state d \<noteq> FINAL then d\<lparr>state := BLOCKED_INTER_1\<rparr>
        else d) rid)"
  by (simp add: notify_poison_received_def notify_state_def)

lemma notify_INIT:
  "state d = INIT \<Longrightarrow>
   notify_poison_received d rid = Inr (notify_last (d\<lparr>state := BLOCKED_INTER_1\<rparr>) rid)"
  by (simp add: notify_poison_received_def notify_state_def)

lemma state_notify_last [simp]: "state (notify_last d rid) = state d"
  by (simp add: notify_last_def)

lemma counter_notify_last [simp]: "last_message_id (notify_last d rid) = last_message_id d"
  by (simp add: notify_last_def)

lemma bound_notify_last [simp]: "max_id_value (notify_last d rid) = max_id_value d"
  by (simp add: notify_last_def)

lemma last_notify_last [simp]:
  "last_poison_message_id (notify_last d rid)
     = Some (if rid = max_id_value d then - 1 else rid)"
  by (simp add: notify_last_def)

lemma get_message_id_keeps [simp]:
  "state (snd (get_message_id d)) = state d"
  "last_poison_message_id (snd (get_message_id d)) = last_poison_message_id d"
  "max_id_value (snd (get_message_id d)) = max_id_value d"
  by (simp_all add: get_message_id_def Let_def)

lemma is_blocked_keeps [simp]: "snd (is_blocked d) = d"
  by (simp add: is_blocked_def)

lemma notify_result:
  assumes "notify_poison_received d rid = Inr d1"
  shows "last_poison_message_id d1 = Some (if rid = max_id_value d then - 1 else rid)"
    and "state d1 \<noteq> INIT"
    and "max_id_value d1 = max_id_value d"
    and "last_message_id d1 = last_message_id d"
  using assms
  by (auto simp: notify_poison_received_def notify_state_def
           split: if_splits option.splits)

lemma step_not_INIT:
  assumes "step d c = Inr d1" and "state d \<noteq> INIT \<or> is_notify c"
  shows "state d1 \<noteq> INIT"
proof (cases c)
  case (Notify rid)
  with assms(1) show ?thesis using notify_result(2) [of d rid d1] by simp
next
  case IsBlocked
  with assms show ?thesis by auto
next
  case GetMessageId
  with assms show ?thesis by auto
qed

lemma run_not_INIT:
  "run d cs = Inr d1 \<Longrightarrow> state d \<noteq> INIT \<or> (\<exists>c \<in> set cs. is_notify c) \<Longrightarrow> state d1 \<noteq> INIT"
proof (induction cs arbitrary: d)
  case Nil
  then show ?case by simp
next
  case (Cons c cs)
  from Cons.prems(1) obtain d' where s: "step d c = Inr d'" and r: "run d' cs = Inr d1"
    by (auto split: sum.splits)
  show ?case
  proof (cases "state d \<noteq> INIT \<or> is_notify c")
    case True
    with s have "state d' \<noteq> INIT" by (rule step_not_INIT)
    with Cons.IH [OF r] show ?thesis by blast
  next
    case False
    with Cons.prems(2) have "\<exists>c \<in> set cs. is_notify c" by auto
    with Cons.IH [OF r] show ?thesis by blast
  qed
qed

lemma step_last_in_range:
  assumes "step d c = Inr d1" and "valid_call c" and "last_in_range d"
    and "max_id_value d = max_id_value init"
  shows "last_in_range d1 \<and> max_id_value d1 = max_id_value init"
proof (cases c)
  case (Notify rid)
  with assms(1) have n: "notify_poison_received d rid = Inr d1" by simp
  from Notify assms(2) have "0 \<le> rid \<and> rid \<le> max_id_value init" by simp
  with notify_result(1,3) [OF n] assms(4) show ?thesis
    by (simp add: last_in_range_def)
next
  case IsBlocked
  with assms show ?thesis by auto
next
  case GetMessageId
  with assms show ?thesis by (auto simp: last_in_range_def split: option.splits)
qed

lemma run_last_in_range:
  "run d cs = Inr d1 \<Longrightarrow> list_all valid_call cs \<Longrightarrow> last_in_range d \<Longrightarrow>
   max_id_value d = max_id_value init \<Longrightarrow>
   last_in_range d1 \<and> max_id_value d1 = max_id_value init"
proof (induction cs arbitrary: d)
  case Nil
  then show ?case by simp
next
  case (Cons c cs)
  from Cons.prems(1) obtain d' where s: "step d c = Inr d'" and r: "run d' cs = Inr d1"
    by (auto split: sum.splits)
  from Cons.prems(2) have v: "valid_call c" and vs: "list_all valid_call cs" by simp_all
  from step_last_in_range [OF s v Cons.prems(3,4)]
  have "last_in_range d'" and "max_id_value d' = max_id_value init" by simp_all
  with Cons.IH [OF r vs] show ?case by blast
qed

lemma final_step:
  assumes "state d = FINAL" and "last_poison_message_id d \<noteq> None"
  shows "\<exists>d1. step d c = Inr d1 \<and> state d1 = FINAL \<and> last_poison_message_id d1 \<noteq> None"
proof (cases c)
  case (Notify rid)
  from assms(2) obtain l where "last_poison_message_id d = Some l" by auto
  with assms(1) Notify show ?thesis by (simp add: notify_defs_Some)
next
  case IsBlocked
  with assms show ?thesis by simp
next
  case GetMessageId
  with assms show ?thesis by simp
qed

lemma final_run:
  "state d = FINAL \<Longrightarrow> last_poison_message_id d \<noteq> None \<Longrightarrow>
   \<exists>d1. run d cs = Inr d1 \<and> state d1 = FINAL"
proof (induction cs arbitrary: d)
  case Nil
  then show ?case by simp
next
  case (Cons c cs)
  from final_step [OF Cons.prems, of c] obtain d' where
    s: "step d c = Inr d'" and f: "state d' = FINAL" and l: "last_poison_message_id d' \<noteq> None"
    by blast
  from Cons.IH [OF f l] s show ?case by simp
qed

section \<open>The query\<close>

text \<open>
  C4. For every reachable detector \<^verbatim>\<open>is_blocked\<close> returns true if and only if the state is
  \<open>BLOCKED\<close>; it returns false in each of the states \<open>INIT\<close>, \<open>BLOCKED_INTER_1\<close>,
  \<open>BLOCKED_INTER_2\<close> and \<open>FINAL\<close>.
\<close>

theorem is_blocked_iff_BLOCKED:
  assumes "reachable d"
  shows "fst (is_blocked d) = (state d = BLOCKED)
       \<and> (state d \<in> {INIT, BLOCKED_INTER_1, BLOCKED_INTER_2, FINAL} \<longrightarrow> \<not> fst (is_blocked d))"
  by (auto simp: is_blocked_def)

theorem is_blocked_iff_BLOCKED_witness:
  "reachable \<lparr>state = BLOCKED, last_poison_message_id = Some 7,
              max_id_value = 10000, last_message_id = 0\<rparr>
   \<and> fst (is_blocked \<lparr>state = BLOCKED, last_poison_message_id = Some 7,
                       max_id_value = 10000, last_message_id = 0\<rparr>)
   \<and> reachable \<lparr>state = FINAL, last_poison_message_id = Some 8,
              max_id_value = 10000, last_message_id = 0\<rparr>
   \<and> \<not> fst (is_blocked \<lparr>state = FINAL, last_poison_message_id = Some 8,
                       max_id_value = 10000, last_message_id = 0\<rparr>)"
proof -
  let ?b = "\<lparr>state = BLOCKED, last_poison_message_id = Some 7,
             max_id_value = 10000, last_message_id = 0\<rparr>"
  let ?f = "\<lparr>state = FINAL, last_poison_message_id = Some 8,
             max_id_value = 10000, last_message_id = 0\<rparr>"
  have "run init [Notify 5, Notify 6, Notify 7] = Inr ?b"
    by (simp add: init_def notify_poison_received_def notify_state_def notify_last_def)
  then have rb: "reachable ?b" by (rule reachableI)
  have "run init [Notify 5, Notify 6, Notify 7, Notify 8] = Inr ?f"
    by (simp add: init_def notify_poison_received_def notify_state_def notify_last_def)
  then have rf: "reachable ?f" by (rule reachableI)
  from rb rf is_blocked_iff_BLOCKED [OF rb] is_blocked_iff_BLOCKED [OF rf]
  show ?thesis by simp
qed

section \<open>A new detector\<close>

text \<open>
  C7. A new detector is in the state \<open>INIT\<close>, so \<^verbatim>\<open>is_blocked\<close> is false, and its counter
  of message identifiers is 0. The first notification moves a detector in the state
  \<open>INIT\<close> to \<open>BLOCKED_INTER_1\<close> whatever identifier it carries: this holds for every
  integer, so for those from 0 to the bound too.
\<close>

theorem fresh_detector:
  "state init = INIT \<and> \<not> fst (is_blocked init) \<and> last_message_id init = 0
   \<and> (\<forall>rid. \<exists>d1. notify_poison_received init rid = Inr d1 \<and> state d1 = BLOCKED_INTER_1)
   \<and> (\<forall>d rid. state d = INIT \<longrightarrow>
         (\<exists>d1. notify_poison_received d rid = Inr d1 \<and> state d1 = BLOCKED_INTER_1))"
proof -
  have a: "state init = INIT \<and> \<not> fst (is_blocked init) \<and> last_message_id init = 0"
    by (simp add: init_def is_blocked_def)
  have b: "\<exists>d1. notify_poison_received d rid = Inr d1 \<and> state d1 = BLOCKED_INTER_1"
    if "state d = INIT" for d rid
    using that by (simp add: notify_INIT)
  from a b show ?thesis by blast
qed

theorem fresh_detector_witness:
  "state init = INIT
   \<and> (\<exists>d1. notify_poison_received init 10000 = Inr d1 \<and> state d1 = BLOCKED_INTER_1)
   \<and> (\<exists>d1. notify_poison_received init 0 = Inr d1 \<and> state d1 = BLOCKED_INTER_1)"
  using fresh_detector by blast

section \<open>The two counters do not touch each other\<close>

text \<open>
  C8. A notification never changes the counter of message identifiers
  \<^verbatim>\<open>last_message_id\<close>; \<^verbatim>\<open>get_message_id\<close> never changes the state nor the last poison
  identifier; \<^verbatim>\<open>is_blocked\<close> changes no field.
\<close>

theorem frame:
  "(notify_poison_received d rid = Inr d1 \<longrightarrow> last_message_id d1 = last_message_id d)
   \<and> state (snd (get_message_id d)) = state d
   \<and> last_poison_message_id (snd (get_message_id d)) = last_poison_message_id d
   \<and> snd (is_blocked d) = d"
proof -
  have "last_message_id d1 = last_message_id d" if "notify_poison_received d rid = Inr d1"
    using that
    by (auto simp: notify_poison_received_def notify_state_def
             split: if_splits option.splits)
  moreover have "state (snd (get_message_id d)) = state d"
    by (simp add: get_message_id_def Let_def)
  moreover have "last_poison_message_id (snd (get_message_id d)) = last_poison_message_id d"
    by (simp add: get_message_id_def Let_def)
  moreover have "snd (is_blocked d) = d"
    by (simp add: is_blocked_def)
  ultimately show ?thesis by blast
qed

theorem frame_witness:
  "notify_poison_received (init\<lparr>last_message_id := 42\<rparr>) 5
     = Inr \<lparr>state = BLOCKED_INTER_1, last_poison_message_id = Some 5,
            max_id_value = 10000, last_message_id = 42\<rparr>
   \<and> last_message_id \<lparr>state = BLOCKED_INTER_1, last_poison_message_id = Some 5,
            max_id_value = 10000, last_message_id = 42\<rparr> = last_message_id (init\<lparr>last_message_id := 42\<rparr>)"
proof -
  let ?d1 = "\<lparr>state = BLOCKED_INTER_1, last_poison_message_id = Some 5,
            max_id_value = 10000, last_message_id = 42\<rparr>"
  have h: "notify_poison_received (init\<lparr>last_message_id := 42\<rparr>) 5 = Inr ?d1"
    by (simp add: init_def notify_poison_received_def notify_state_def notify_last_def)
  from h frame [of "init\<lparr>last_message_id := 42\<rparr>" 5 ?d1] show ?thesis by blast
qed

section \<open>Notifications\<close>

text \<open>
  C1. In each of the states \<open>BLOCKED_INTER_1\<close>, \<open>BLOCKED_INTER_2\<close> and \<open>BLOCKED\<close>, a
  notification whose identifier is the last one plus 1 moves the state one step along
  \<open>BLOCKED_INTER_1\<close>, \<open>BLOCKED_INTER_2\<close>, \<open>BLOCKED\<close>, \<open>FINAL\<close>. So for identifiers
  \<open>a\<close>, \<open>a + 1\<close>, \<open>a + 2\<close> of the identifier space (from 0 to the bound 10000) a new
  detector is in \<open>BLOCKED\<close> after the third, \<^verbatim>\<open>is_blocked\<close> is false before the third and
  true after it, and a fourth identifier \<open>a + 3\<close> of the space moves the state to \<open>FINAL\<close>,
  where \<^verbatim>\<open>is_blocked\<close> is false again.
\<close>

theorem consecutive_ids_advance:
  "(state d \<in> {BLOCKED_INTER_1, BLOCKED_INTER_2, BLOCKED} \<longrightarrow>
    last_poison_message_id d = Some l \<longrightarrow>
      (\<exists>d1. notify_poison_received d (l + 1) = Inr d1
         \<and> (state d = BLOCKED_INTER_1 \<longrightarrow> state d1 = BLOCKED_INTER_2)
         \<and> (state d = BLOCKED_INTER_2 \<longrightarrow> state d1 = BLOCKED)
         \<and> (state d = BLOCKED \<longrightarrow> state d1 = FINAL)))
   \<and> (0 \<le> a \<longrightarrow> a + 2 \<le> max_id_value init \<longrightarrow>
      (\<exists>d1 d2 d3.
          notify_poison_received init a = Inr d1
        \<and> notify_poison_received d1 (a + 1) = Inr d2
        \<and> notify_poison_received d2 (a + 2) = Inr d3
        \<and> state d1 = BLOCKED_INTER_1 \<and> state d2 = BLOCKED_INTER_2 \<and> state d3 = BLOCKED
        \<and> \<not> fst (is_blocked init) \<and> \<not> fst (is_blocked d1) \<and> \<not> fst (is_blocked d2)
        \<and> fst (is_blocked d3)
        \<and> (a + 3 \<le> max_id_value init \<longrightarrow>
             (\<exists>d4. notify_poison_received d3 (a + 3) = Inr d4
                \<and> state d4 = FINAL \<and> \<not> fst (is_blocked d4)))))"
proof -
  have one: "\<exists>d1. notify_poison_received d (l + 1) = Inr d1
         \<and> (state d = BLOCKED_INTER_1 \<longrightarrow> state d1 = BLOCKED_INTER_2)
         \<and> (state d = BLOCKED_INTER_2 \<longrightarrow> state d1 = BLOCKED)
         \<and> (state d = BLOCKED \<longrightarrow> state d1 = FINAL)"
    if "state d \<in> {BLOCKED_INTER_1, BLOCKED_INTER_2, BLOCKED}"
      and "last_poison_message_id d = Some l"
    using that by (auto simp: notify_defs_Some)
  have run: "\<exists>d1 d2 d3.
          notify_poison_received init a = Inr d1
        \<and> notify_poison_received d1 (a + 1) = Inr d2
        \<and> notify_poison_received d2 (a + 2) = Inr d3
        \<and> state d1 = BLOCKED_INTER_1 \<and> state d2 = BLOCKED_INTER_2 \<and> state d3 = BLOCKED
        \<and> \<not> fst (is_blocked init) \<and> \<not> fst (is_blocked d1) \<and> \<not> fst (is_blocked d2)
        \<and> fst (is_blocked d3)
        \<and> (a + 3 \<le> max_id_value init \<longrightarrow>
             (\<exists>d4. notify_poison_received d3 (a + 3) = Inr d4
                \<and> state d4 = FINAL \<and> \<not> fst (is_blocked d4)))"
    if lo: "0 \<le> a" and hi: "a + 2 \<le> max_id_value init"
  proof -
    let ?d1 = "\<lparr>state = BLOCKED_INTER_1, last_poison_message_id = Some a,
                max_id_value = 10000, last_message_id = 0\<rparr>"
    let ?d2 = "\<lparr>state = BLOCKED_INTER_2, last_poison_message_id = Some (a + 1),
                max_id_value = 10000, last_message_id = 0\<rparr>"
    let ?d3 = "\<lparr>state = BLOCKED,
                last_poison_message_id = Some (if a + 2 = 10000 then - 1 else a + 2),
                max_id_value = 10000, last_message_id = 0\<rparr>"
    let ?d4 = "\<lparr>state = FINAL,
                last_poison_message_id = Some (if a + 3 = 10000 then - 1 else a + 3),
                max_id_value = 10000, last_message_id = 0\<rparr>"
    from hi have a: "a \<le> 9998" by (simp add: init_def)
    have s1: "notify_poison_received init a = Inr ?d1"
      using a by (simp add: notify_INIT init_def notify_last_def)
    have s2: "notify_poison_received ?d1 (a + 1) = Inr ?d2"
      using a by (simp add: notify_defs_Some notify_last_def)
    have s3: "notify_poison_received ?d2 (a + 2) = Inr ?d3"
      by (simp add: notify_defs_Some notify_last_def)
    have s4: "notify_poison_received ?d3 (a + 3) = Inr ?d4" if "a + 3 \<le> max_id_value init"
      using that by (simp add: notify_defs_Some notify_last_def init_def)
    have q: "\<not> fst (is_blocked init) \<and> \<not> fst (is_blocked ?d1) \<and> \<not> fst (is_blocked ?d2)
        \<and> fst (is_blocked ?d3) \<and> \<not> fst (is_blocked ?d4)"
      by (simp add: is_blocked_def init_def)
    have four: "a + 3 \<le> max_id_value init \<longrightarrow>
             (\<exists>d4. notify_poison_received ?d3 (a + 3) = Inr d4
                \<and> state d4 = FINAL \<and> \<not> fst (is_blocked d4))"
      using s4 q by auto
    show ?thesis
      apply (rule exI [of _ ?d1], rule exI [of _ ?d2], rule exI [of _ ?d3])
      using s1 s2 s3 q four by simp
  qed
  from one run show ?thesis by blast
qed

theorem consecutive_ids_advance_witness:
  "(\<exists>d1. notify_poison_received \<lparr>state = BLOCKED_INTER_2, last_poison_message_id = Some (- 1),
                                  max_id_value = 10000, last_message_id = 3\<rparr> 0 = Inr d1
         \<and> state d1 = BLOCKED)
   \<and> (\<exists>d1 d2 d3 d4.
          notify_poison_received init 5 = Inr d1
        \<and> notify_poison_received d1 6 = Inr d2
        \<and> notify_poison_received d2 7 = Inr d3
        \<and> notify_poison_received d3 8 = Inr d4
        \<and> state d1 = BLOCKED_INTER_1 \<and> state d2 = BLOCKED_INTER_2 \<and> state d3 = BLOCKED
        \<and> state d4 = FINAL
        \<and> \<not> fst (is_blocked d2) \<and> fst (is_blocked d3) \<and> \<not> fst (is_blocked d4))"
proof -
  let ?d = "\<lparr>state = BLOCKED_INTER_2, last_poison_message_id = Some (- 1),
             max_id_value = 10000, last_message_id = 3\<rparr>"
  have h1: "state ?d \<in> {BLOCKED_INTER_1, BLOCKED_INTER_2, BLOCKED}" by simp
  have h2: "last_poison_message_id ?d = Some (- 1)" by simp
  have h3: "(0::int) \<le> 5 \<and> 5 + 2 \<le> max_id_value init \<and> 5 + 3 \<le> max_id_value init"
    by (simp add: init_def)
  from h1 h2 h3 consecutive_ids_advance [of ?d "- 1" 5] show ?thesis
    by simp blast
qed

text \<open>
  C2. In a state other than \<open>INIT\<close>, a notification whose identifier is not the last one
  plus 1 sets the state to \<open>BLOCKED_INTER_1\<close> from \<open>BLOCKED_INTER_1\<close> and
  \<open>BLOCKED_INTER_2\<close>, and leaves the states \<open>BLOCKED\<close> and \<open>FINAL\<close> as they are. The last
  identifier of a detector that is not in \<open>INIT\<close> is an integer \<open>l\<close>.
\<close>

theorem broken_run_resets:
  assumes "state d \<noteq> INIT" and "last_poison_message_id d = Some l" and "rid \<noteq> l + 1"
  shows "\<exists>d1. notify_poison_received d rid = Inr d1
           \<and> (state d \<in> {BLOCKED_INTER_1, BLOCKED_INTER_2} \<longrightarrow> state d1 = BLOCKED_INTER_1)
           \<and> (state d \<in> {BLOCKED, FINAL} \<longrightarrow> state d1 = state d)"
  using assms by (auto simp: notify_defs_Some)

theorem broken_run_resets_witness:
  "(\<exists>d1. notify_poison_received \<lparr>state = BLOCKED_INTER_2, last_poison_message_id = Some 43,
                                  max_id_value = 10000, last_message_id = 0\<rparr> 99 = Inr d1
         \<and> state d1 = BLOCKED_INTER_1)
   \<and> (\<exists>d1. notify_poison_received \<lparr>state = BLOCKED, last_poison_message_id = Some 44,
                                  max_id_value = 10000, last_message_id = 0\<rparr> 99 = Inr d1
         \<and> state d1 = BLOCKED)"
proof -
  let ?p = "\<lparr>state = BLOCKED_INTER_2, last_poison_message_id = Some 43,
             max_id_value = 10000, last_message_id = 0\<rparr>"
  let ?b = "\<lparr>state = BLOCKED, last_poison_message_id = Some 44,
             max_id_value = 10000, last_message_id = 0\<rparr>"
  have p: "state ?p \<noteq> INIT" "last_poison_message_id ?p = Some 43" "(99::int) \<noteq> 43 + 1"
    by simp_all
  have b: "state ?b \<noteq> INIT" "last_poison_message_id ?b = Some 44" "(99::int) \<noteq> 44 + 1"
    by simp_all
  from broken_run_resets [OF p] broken_run_resets [OF b] show ?thesis by simp
qed

text \<open>
  C3. A notification that returns has recorded its identifier: \<open>- 1\<close> when the identifier
  is the bound \<^verbatim>\<open>max_id_value\<close> (10000 in every reachable detector), the identifier itself
  otherwise; and on a reachable detector every notification returns. Hence the bound
  followed by 0 passes the successor test and makes the transition that any other pair
  \<open>rid\<close>, \<open>rid + 1\<close> (such as 5 then 6) makes from the same state.
\<close>

theorem last_id_recorded:
  "(notify_poison_received d rid = Inr d1 \<longrightarrow>
      last_poison_message_id d1 = Some (if rid = max_id_value d then - 1 else rid))
   \<and> (reachable d \<longrightarrow> max_id_value d = 10000
         \<and> (\<exists>d'. notify_poison_received d rid = Inr d'
               \<and> last_poison_message_id d'
                   = Some (if rid = max_id_value d then - 1 else rid)))
   \<and> (notify_poison_received d (max_id_value d) = Inr dm \<longrightarrow>
      notify_poison_received e rid = Inr e1 \<longrightarrow> rid \<noteq> max_id_value e \<longrightarrow>
      state e1 = state dm \<longrightarrow>
        (\<exists>dm2 e2. notify_poison_received dm 0 = Inr dm2
           \<and> notify_poison_received e1 (rid + 1) = Inr e2
           \<and> state dm2 = state e2
           \<and> (state dm = BLOCKED_INTER_1 \<longrightarrow> state dm2 = BLOCKED_INTER_2)
           \<and> (state dm = BLOCKED_INTER_2 \<longrightarrow> state dm2 = BLOCKED)
           \<and> (state dm = BLOCKED \<longrightarrow> state dm2 = FINAL)
           \<and> (state dm = FINAL \<longrightarrow> state dm2 = FINAL)))"
proof -
  have a: "last_poison_message_id d1 = Some (if rid = max_id_value d then - 1 else rid)"
    if "notify_poison_received d rid = Inr d1"
    using that by (rule notify_result(1))
  have b: "max_id_value d = 10000
         \<and> (\<exists>d'. notify_poison_received d rid = Inr d'
               \<and> last_poison_message_id d'
                   = Some (if rid = max_id_value d then - 1 else rid))"
    if r: "reachable d"
  proof -
    from reachable_inv [OF r] have i: "detector_inv d" .
    from notify_inv [OF i, of rid] obtain d' where n: "notify_poison_received d rid = Inr d'"
      by blast
    from i n notify_result(1) [OF n] show ?thesis by (simp add: detector_inv_def)
  qed
  have c: "\<exists>dm2 e2. notify_poison_received dm 0 = Inr dm2
           \<and> notify_poison_received e1 (rid + 1) = Inr e2
           \<and> state dm2 = state e2
           \<and> (state dm = BLOCKED_INTER_1 \<longrightarrow> state dm2 = BLOCKED_INTER_2)
           \<and> (state dm = BLOCKED_INTER_2 \<longrightarrow> state dm2 = BLOCKED)
           \<and> (state dm = BLOCKED \<longrightarrow> state dm2 = FINAL)
           \<and> (state dm = FINAL \<longrightarrow> state dm2 = FINAL)"
    if m: "notify_poison_received d (max_id_value d) = Inr dm"
      and n: "notify_poison_received e rid = Inr e1"
      and ne: "rid \<noteq> max_id_value e"
      and st: "state e1 = state dm"
  proof -
    from notify_result(1,2) [OF m]
    have lm: "last_poison_message_id dm = Some (- 1)" and sm: "state dm \<noteq> INIT" by simp_all
    from notify_result(1,2) [OF n] ne
    have le: "last_poison_message_id e1 = Some rid" and se: "state e1 \<noteq> INIT" by simp_all
    show ?thesis
      using st by (cases "state dm") (simp_all add: notify_defs_Some [OF lm sm] notify_defs_Some [OF le se])
  qed
  from a b c show ?thesis by blast
qed

theorem last_id_recorded_witness:
  "notify_poison_received init 10000
     = Inr \<lparr>state = BLOCKED_INTER_1, last_poison_message_id = Some (- 1),
            max_id_value = 10000, last_message_id = 0\<rparr>
   \<and> notify_poison_received init 5
     = Inr \<lparr>state = BLOCKED_INTER_1, last_poison_message_id = Some 5,
            max_id_value = 10000, last_message_id = 0\<rparr>
   \<and> (\<exists>dm2 e2.
         notify_poison_received \<lparr>state = BLOCKED_INTER_1, last_poison_message_id = Some (- 1),
            max_id_value = 10000, last_message_id = 0\<rparr> 0 = Inr dm2
       \<and> notify_poison_received \<lparr>state = BLOCKED_INTER_1, last_poison_message_id = Some 5,
            max_id_value = 10000, last_message_id = 0\<rparr> 6 = Inr e2
       \<and> state dm2 = BLOCKED_INTER_2 \<and> state e2 = BLOCKED_INTER_2)"
proof -
  let ?dm = "\<lparr>state = BLOCKED_INTER_1, last_poison_message_id = Some (- 1),
            max_id_value = 10000, last_message_id = 0\<rparr>"
  let ?e1 = "\<lparr>state = BLOCKED_INTER_1, last_poison_message_id = Some 5,
            max_id_value = 10000, last_message_id = 0\<rparr>"
  have m: "notify_poison_received init (max_id_value init) = Inr ?dm"
    by (simp add: init_def notify_poison_received_def notify_state_def notify_last_def)
  have n: "notify_poison_received init 5 = Inr ?e1"
    by (simp add: init_def notify_poison_received_def notify_state_def notify_last_def)
  have ne: "(5::int) \<noteq> max_id_value init" by (simp add: init_def)
  have st: "state ?e1 = state ?dm" by simp
  have mx: "max_id_value init = 10000" by (simp add: init_def)
  from last_id_recorded [of init 5 ?e1 ?dm init ?e1] m n ne st
  have "\<exists>dm2 e2. notify_poison_received ?dm 0 = Inr dm2
           \<and> notify_poison_received ?e1 (5 + 1) = Inr e2
           \<and> state dm2 = state e2
           \<and> state dm2 = BLOCKED_INTER_2"
    by simp
  with m n mx show ?thesis by auto
qed

text \<open>
  C5. \<open>FINAL\<close> is terminal: on a reachable detector in the state \<open>FINAL\<close> every
  notification returns and leaves the state \<open>FINAL\<close>, whatever its identifier, and so
  does every sequence of calls of the three methods.
\<close>

theorem FINAL_is_terminal:
  assumes "reachable d" and "state d = FINAL"
  shows "(\<forall>rid. \<exists>d1. notify_poison_received d rid = Inr d1 \<and> state d1 = FINAL)
       \<and> (\<forall>cs. \<exists>d1. run d cs = Inr d1 \<and> state d1 = FINAL)"
proof -
  from reachable_inv [OF assms(1)] assms(2) have l: "last_poison_message_id d \<noteq> None"
    by (simp add: detector_inv_def)
  have "\<exists>d1. notify_poison_received d rid = Inr d1 \<and> state d1 = FINAL" for rid
    using final_step [OF assms(2) l, of "Notify rid"] by auto
  moreover have "\<exists>d1. run d cs = Inr d1 \<and> state d1 = FINAL" for cs
    using final_run [OF assms(2) l] .
  ultimately show ?thesis by blast
qed

theorem FINAL_is_terminal_witness:
  "reachable \<lparr>state = FINAL, last_poison_message_id = Some 8,
              max_id_value = 10000, last_message_id = 0\<rparr>
   \<and> (\<exists>d1. notify_poison_received \<lparr>state = FINAL, last_poison_message_id = Some 8,
              max_id_value = 10000, last_message_id = 0\<rparr> 9 = Inr d1 \<and> state d1 = FINAL)
   \<and> (\<exists>d1. run \<lparr>state = FINAL, last_poison_message_id = Some 8,
              max_id_value = 10000, last_message_id = 0\<rparr>
              [Notify 3, GetMessageId, Notify 4, IsBlocked, Notify 5, Notify 6] = Inr d1
          \<and> state d1 = FINAL)"
proof -
  let ?f = "\<lparr>state = FINAL, last_poison_message_id = Some 8,
             max_id_value = 10000, last_message_id = 0\<rparr>"
  have "run init [Notify 5, Notify 6, Notify 7, Notify 8] = Inr ?f"
    by (simp add: init_def notify_poison_received_def notify_state_def notify_last_def)
  then have r: "reachable ?f" by (rule reachableI)
  have s: "state ?f = FINAL" by simp
  from r FINAL_is_terminal [OF r s] show ?thesis by blast
qed

section \<open>Invariants of the reachable detectors\<close>

text \<open>
  C9. In every reachable detector the last poison identifier is \<^verbatim>\<open>None\<close> exactly in the
  state \<open>INIT\<close>. A notification raises exactly when the successor test is reached with
  \<^verbatim>\<open>None\<close>, that is when the state is not \<open>INIT\<close> and the last identifier is \<^verbatim>\<open>None\<close>;
  so on a reachable detector it returns for every integer identifier.
\<close>

theorem notify_total:
  assumes "reachable d"
  shows "((last_poison_message_id d = None) = (state d = INIT))
       \<and> (\<forall>rid. \<exists>d1. notify_poison_received d rid = Inr d1)
       \<and> (\<forall>d0 rid e. (notify_poison_received d0 rid = Inl e)
                        = (state d0 \<noteq> INIT \<and> last_poison_message_id d0 = None))"
proof -
  from reachable_inv [OF assms] have i: "detector_inv d" .
  then have a: "(last_poison_message_id d = None) = (state d = INIT)"
    by (simp add: detector_inv_def)
  have b: "\<exists>d1. notify_poison_received d rid = Inr d1" for rid
    using notify_inv [OF i, of rid] by blast
  have c: "(notify_poison_received d0 rid = Inl e)
             = (state d0 \<noteq> INIT \<and> last_poison_message_id d0 = None)" for d0 rid e
    using notify_raises_iff [of d0 rid] by (cases e) simp
  from a b c show ?thesis by blast
qed

theorem notify_total_witness:
  "reachable \<lparr>state = BLOCKED_INTER_2, last_poison_message_id = Some (- 1),
              max_id_value = 10000, last_message_id = 1\<rparr>
   \<and> (\<exists>d1. notify_poison_received \<lparr>state = BLOCKED_INTER_2,
              last_poison_message_id = Some (- 1),
              max_id_value = 10000, last_message_id = 1\<rparr> (- 7) = Inr d1)
   \<and> notify_poison_received \<lparr>state = BLOCKED, last_poison_message_id = None,
              max_id_value = 10000, last_message_id = 0\<rparr> 1 = Inl TypeError"
proof -
  let ?d = "\<lparr>state = BLOCKED_INTER_2, last_poison_message_id = Some (- 1),
             max_id_value = 10000, last_message_id = 1\<rparr>"
  let ?u = "\<lparr>state = BLOCKED, last_poison_message_id = None,
             max_id_value = 10000, last_message_id = 0\<rparr>"
  have "run init [Notify 9999, GetMessageId, Notify 10000] = Inr ?d"
    by (simp add: init_def notify_poison_received_def notify_state_def notify_last_def
                  get_message_id_def)
  then have r: "reachable ?d" by (rule reachableI)
  have u: "state ?u \<noteq> INIT \<and> last_poison_message_id ?u = None" by simp
  from notify_total [OF r] have
    t: "\<forall>rid. \<exists>d1. notify_poison_received ?d rid = Inr d1" and
    e: "\<forall>d0 rid e. (notify_poison_received d0 rid = Inl e)
                        = (state d0 \<noteq> INIT \<and> last_poison_message_id d0 = None)"
    by blast+
  from e u have "notify_poison_received ?u 1 = Inl TypeError" by blast
  with r t show ?thesis by blast
qed

text \<open>
  C10. A notification never leaves a detector in the state \<open>INIT\<close>, and no call moves a
  detector back to \<open>INIT\<close>: after a sequence of calls from a new detector that holds a
  notification, the state is not \<open>INIT\<close>. When every notified identifier of the sequence
  is from 0 to the bound, the last poison identifier, once set, is \<open>- 1\<close> or from 0 to
  the bound minus 1; it is never the bound.
\<close>

theorem never_INIT_again:
  "(notify_poison_received d rid = Inr d1 \<longrightarrow> state d1 \<noteq> INIT)
   \<and> (state d \<noteq> INIT \<longrightarrow> step d c = Inr d2 \<longrightarrow> state d2 \<noteq> INIT)
   \<and> (run init cs = Inr d3 \<longrightarrow> (\<exists>c \<in> set cs. is_notify c) \<longrightarrow> state d3 \<noteq> INIT)
   \<and> (run init cs = Inr d3 \<longrightarrow> list_all valid_call cs \<longrightarrow>
        (last_poison_message_id d3 = None \<and> state d3 = INIT \<and> \<not> (\<exists>c \<in> set cs. is_notify c))
        \<or> (\<exists>l. last_poison_message_id d3 = Some l
              \<and> (l = - 1 \<or> (0 \<le> l \<and> l \<le> max_id_value d3 - 1))
              \<and> l \<noteq> max_id_value d3 \<and> max_id_value d3 = 10000))"
proof -
  have a: "state d1 \<noteq> INIT" if "notify_poison_received d rid = Inr d1"
    using that by (rule notify_result(2))
  have b: "state d2 \<noteq> INIT" if "state d \<noteq> INIT" and "step d c = Inr d2"
    using that step_not_INIT [of d c d2] by blast
  have c: "state d3 \<noteq> INIT" if "run init cs = Inr d3" and "\<exists>c \<in> set cs. is_notify c"
    using that run_not_INIT [of init cs d3] by blast
  have e: "(last_poison_message_id d3 = None \<and> state d3 = INIT
              \<and> \<not> (\<exists>c \<in> set cs. is_notify c))
        \<or> (\<exists>l. last_poison_message_id d3 = Some l
              \<and> (l = - 1 \<or> (0 \<le> l \<and> l \<le> max_id_value d3 - 1))
              \<and> l \<noteq> max_id_value d3 \<and> max_id_value d3 = 10000)"
    if r: "run init cs = Inr d3" and v: "list_all valid_call cs"
  proof (cases "last_poison_message_id d3")
    case None
    from r have "reachable d3" by (rule reachableI)
    from reachable_inv [OF this] None have "state d3 = INIT" by (simp add: detector_inv_def)
    with c [OF r] None show ?thesis by blast
  next
    case (Some l)
    have "last_in_range init" by (simp add: last_in_range_def init_def)
    from run_last_in_range [OF r v this]
    have "last_in_range d3" and "max_id_value d3 = max_id_value init" by simp_all
    with Some show ?thesis by (auto simp: last_in_range_def init_def)
  qed
  from a b c e show ?thesis by blast
qed

theorem never_INIT_again_witness:
  "run init [Notify 9999, GetMessageId, Notify 10000]
     = Inr \<lparr>state = BLOCKED_INTER_2, last_poison_message_id = Some (- 1),
            max_id_value = 10000, last_message_id = 1\<rparr>
   \<and> list_all valid_call [Notify 9999, GetMessageId, Notify 10000]
   \<and> (\<exists>c \<in> set [Notify 9999, GetMessageId, Notify 10000]. is_notify c)
   \<and> state \<lparr>state = BLOCKED_INTER_2, last_poison_message_id = Some (- 1),
            max_id_value = 10000, last_message_id = 1\<rparr> \<noteq> INIT
   \<and> (\<exists>l. last_poison_message_id \<lparr>state = BLOCKED_INTER_2,
            last_poison_message_id = Some (- 1),
            max_id_value = 10000, last_message_id = 1\<rparr> = Some l
         \<and> (l = - 1 \<or> (0 \<le> l \<and> l \<le> 9999)))"
proof -
  let ?cs = "[Notify 9999, GetMessageId, Notify 10000]"
  let ?d = "\<lparr>state = BLOCKED_INTER_2, last_poison_message_id = Some (- 1),
             max_id_value = 10000, last_message_id = 1\<rparr>"
  have r: "run init ?cs = Inr ?d"
    by (simp add: init_def notify_poison_received_def notify_state_def notify_last_def
                  get_message_id_def)
  have v: "list_all valid_call ?cs" by (simp add: init_def)
  have n: "\<exists>c \<in> set ?cs. is_notify c" by simp
  from never_INIT_again [where cs = ?cs and ?d3.0 = ?d] r v n
  show ?thesis by simp
qed

section \<open>The counter of message identifiers\<close>

lemma get_message_id_eq:
  "get_message_id d =
     (last_message_id d,
      d\<lparr>last_message_id := (if last_message_id d = max_id_value d then 0
                             else last_message_id d + 1)\<rparr>)"
  by (simp add: get_message_id_def Let_def)

lemma get_message_ids_upto:
  "last_message_id d \<le> max_id_value d \<Longrightarrow>
   last_message_id d + int n \<le> max_id_value d + 1 \<Longrightarrow>
   get_message_ids n d =
     ([last_message_id d .. last_message_id d + int n - 1],
      d\<lparr>last_message_id := (if last_message_id d + int n = max_id_value d + 1 then 0
                             else last_message_id d + int n)\<rparr>)"
proof (induction n arbitrary: d)
  case 0
  then show ?case by simp
next
  case (Suc n)
  let ?k = "last_message_id d"
  show ?case
  proof (cases "?k = max_id_value d")
    case True
    with Suc.prems have n: "n = 0" by simp
    with True show ?thesis by (simp add: get_message_id_eq)
  next
    case False
    let ?e = "d\<lparr>last_message_id := ?k + 1\<rparr>"
    have g: "get_message_id d = (?k, ?e)"
      using False by (simp add: get_message_id_eq)
    have p1: "last_message_id ?e \<le> max_id_value ?e"
      using False Suc.prems by simp
    have p2: "last_message_id ?e + int n \<le> max_id_value ?e + 1"
      using Suc.prems by simp
    have ih: "get_message_ids n ?e =
       ([?k + 1 .. ?k + 1 + int n - 1],
        d\<lparr>last_message_id := (if ?k + 1 + int n = max_id_value d + 1 then 0
                               else ?k + 1 + int n)\<rparr>)"
      using Suc.IH [OF p1 p2] by simp
    have l: "?k # [?k + 1 .. ?k + int n] = [?k .. ?k + int n]"
      by (simp add: upto_rec1 [of ?k "?k + int n"])
    have st: "get_message_ids (Suc n) d
                = (?k # fst (get_message_ids n ?e), snd (get_message_ids n ?e))"
      by (simp add: g split: prod.splits)
    show ?thesis
      unfolding st ih using l by simp
  qed
qed

lemma counter_in_range:
  "reachable d \<Longrightarrow> 0 \<le> last_message_id d \<and> last_message_id d \<le> max_id_value d"
  using reachable_inv [of d] by (simp add: detector_inv_def)

text \<open>
  C6. \<^verbatim>\<open>get_message_id\<close> returns the counter and then advances it: to 0 when the value
  returned is the bound, by one otherwise. From a new detector 10001 calls return
  0, 1, ..., 10000 in this order, each once, the call after them returns 0 again, and
  in every reachable detector the counter is from 0 to the bound.
\<close>

theorem message_ids_cycle:
  "get_message_id d =
     (last_message_id d,
      d\<lparr>last_message_id := (if last_message_id d = max_id_value d then 0
                             else last_message_id d + 1)\<rparr>)
   \<and> max_id_value init = 10000
   \<and> fst (get_message_ids 10001 init) = [0 .. 10000]
   \<and> distinct (fst (get_message_ids 10001 init))
   \<and> fst (get_message_id (snd (get_message_ids 10001 init))) = 0
   \<and> (n \<le> 10001 \<longrightarrow> fst (get_message_ids n init) = [0 .. int n - 1])
   \<and> (reachable d \<longrightarrow> 0 \<le> last_message_id d \<and> last_message_id d \<le> max_id_value d)"
proof -
  have i: "last_message_id init \<le> max_id_value init" by (simp add: init_def)
  have g: "get_message_ids n init =
     ([0 .. int n - 1], init\<lparr>last_message_id := (if n = 10001 then 0 else int n)\<rparr>)"
    if "n \<le> 10001" for n
  proof -
    from that have "last_message_id init + int n \<le> max_id_value init + 1"
      by (simp add: init_def)
    from get_message_ids_upto [OF i this] show ?thesis
      by (simp add: init_def)
  qed
  have all: "get_message_ids 10001 init = ([0 .. 10000], init\<lparr>last_message_id := 0\<rparr>)"
    using g [of 10001] by simp
  have a: "fst (get_message_ids 10001 init) = [0 .. 10000]"
    by (simp add: all)
  have b: "distinct (fst (get_message_ids 10001 init))"
    unfolding a by (rule distinct_upto)
  have c: "fst (get_message_id (snd (get_message_ids 10001 init))) = 0"
    by (simp add: all get_message_id_eq)
  have e: "n \<le> 10001 \<longrightarrow> fst (get_message_ids n init) = [0 .. int n - 1]"
    using g [of n] by simp
  have m: "max_id_value init = 10000" by (simp add: init_def)
  from get_message_id_eq [of d] m a b c e counter_in_range [of d] show ?thesis by blast
qed

theorem message_ids_cycle_witness:
  "(3::nat) \<le> 10001 \<and> fst (get_message_ids 3 init) = [0, 1, 2]
   \<and> reachable (snd (get_message_ids 3 init))
   \<and> last_message_id (snd (get_message_ids 3 init)) = 3
   \<and> get_message_id (init\<lparr>last_message_id := 10000\<rparr>) = (10000, init)"
proof -
  have u: "[0 .. int 3 - 1] = [0, 1, 2]" by (simp add: upto_rec1)
  have three: "get_message_ids 3 init = ([0, 1, 2], init\<lparr>last_message_id := 3\<rparr>)"
    by (simp add: numeral_3_eq_3 get_message_id_eq init_def)
  have "run init [GetMessageId, GetMessageId, GetMessageId] = Inr (init\<lparr>last_message_id := 3\<rparr>)"
    by (simp add: get_message_id_eq init_def)
  then have "reachable (init\<lparr>last_message_id := 3\<rparr>)" by (rule reachableI)
  then have r: "reachable (snd (get_message_ids 3 init))" by (simp only: three snd_conv)
  have w: "get_message_id (init\<lparr>last_message_id := 10000\<rparr>) = (10000, init)"
    using message_ids_cycle [of "init\<lparr>last_message_id := 10000\<rparr>" 3]
    by (simp add: init_def)
  from message_ids_cycle [of "snd (get_message_ids 3 init)" 3] r u w three
  show ?thesis by simp
qed

end
